theory Spec2Isabelle
  imports Main "HOL-Library.Word" "HOL-Library.Multiset"
begin

section \<open>The indexer database: block headers and contract events\<close>

text \<open>
  A shallow embedding of \<^verbatim>\<open>indexer/database/blocks.go\<close> and
  \<^verbatim>\<open>indexer/database/contract_events.go\<close>. Both files talk to a relational
  database through an object-relational mapper; the database is modelled as a record of
  four tables, every table a list of rows in storage order, and every mapper call as a
  function on such lists. A method returning \<^verbatim>\<open>(*T, error)\<close> becomes a function into
  \<open>error + T option\<close>: \<open>Inr None\<close> is \<^verbatim>\<open>(nil, nil)\<close>, \<open>Inr (Some x)\<close> is
  \<^verbatim>\<open>(&x, nil)\<close>, \<open>Inl e\<close> is \<^verbatim>\<open>(nil, e)\<close> or a panic. Failures of the storage
  engine that do not depend on the data (connectivity) are outside the model.
\<close>

subsection \<open>Types\<close>

type_synonym hash = "256 word"      \<comment> \<open>\<^verbatim>\<open>common.Hash\<close>, 32 bytes\<close>
type_synonym address = "160 word"   \<comment> \<open>\<^verbatim>\<open>common.Address\<close>, 20 bytes\<close>
type_synonym uuid = "128 word"      \<comment> \<open>\<^verbatim>\<open>uuid.UUID\<close>, 16 bytes\<close>
type_synonym uint64 = "64 word"
type_synonym uint = "64 word"       \<comment> \<open>\<^verbatim>\<open>uint\<close> on a 64-bit platform\<close>
type_synonym bytes = "8 word list"

datatype error =
    ErrRecordNotFound
  | ErrDuplicatedKey
  | ErrEmptySlice
  | PanicNilPointerDereference
  | ErrorString string

text \<open>
  \<open>Number\<close> is a \<^verbatim>\<open>U256\<close>, a 256-bit unsigned number held in a big integer; a row of
  a header table always carries one. A block height handed to a query is a
  \<^verbatim>\<open>*big.Int\<close>, which may be nil: heights are \<open>nat option\<close> where they are wrapped
  into a \<^verbatim>\<open>U256\<close>, and \<open>int option\<close> where they are handed to the query as they are.
\<close>

record BlockHeader =
  Hash :: hash
  ParentHash :: hash
  Number :: nat
  Timestamp :: uint64
  RLPHeader :: "bytes option"

datatype L1BlockHeader = L1BlockHeader (L1BlockHeader_BlockHeader: BlockHeader)

datatype L2BlockHeader = L2BlockHeader (L2BlockHeader_BlockHeader: BlockHeader)


text \<open>\<^verbatim>\<open>types.Log\<close>: three consensus fields and the derived fields.\<close>

record Log =
  Address :: address
  Topics :: "hash list"
  Data :: bytes
  BlockNumber :: uint64
  TxHash :: hash
  TxIndex :: uint
  BlockHash :: hash
  Index :: uint
  Removed :: bool

record ContractEvent =
  GUID :: uuid
  BlockHash :: hash
  ContractAddress :: address
  TransactionHash :: hash
  LogIndex :: uint64
  EventSignature :: hash
  Timestamp :: uint64
  RLPLog :: "Log option"

datatype L1ContractEvent = L1ContractEvent (L1ContractEvent_ContractEvent: ContractEvent)

datatype L2ContractEvent = L2ContractEvent (L2ContractEvent_ContractEvent: ContractEvent)

text \<open>The database behind \<^verbatim>\<open>db.gorm\<close>: one table per chain and entity.\<close>

record DB =
  l1_block_headers :: "L1BlockHeader list"
  l2_block_headers :: "L2BlockHeader list"
  l1_contract_events :: "L1ContractEvent list"
  l2_contract_events :: "L2ContractEvent list"

subsection \<open>The mapper and the query language\<close>

text \<open>
  \<^verbatim>\<open>Create\<close> with a slice: an empty slice is refused; otherwise the rows are inserted
  one after the other inside one transaction, a row whose primary key is already in the
  table (or earlier in the batch) aborts the statement, and nothing of the batch stays.
\<close>

fun insert_rows :: "('a \<Rightarrow> 'k) \<Rightarrow> 'a list \<Rightarrow> 'a list \<Rightarrow> error + 'a list" where
  "insert_rows pk tbl [] = Inr tbl"
| "insert_rows pk tbl (r # rs) =
     (if pk r \<in> pk ` set tbl then Inl ErrDuplicatedKey else insert_rows pk (tbl @ [r]) rs)"

definition gorm_Create :: "('a \<Rightarrow> 'k) \<Rightarrow> 'a list \<Rightarrow> 'a list \<Rightarrow> error + 'a list" where
  "gorm_Create pk tbl vals = (if vals = [] then Inl ErrEmptySlice else insert_rows pk tbl vals)"

text \<open>\<^verbatim>\<open>INNER JOIN ... ON\<close>: every pair of rows that satisfies the join condition.\<close>

definition inner_join :: "'a list \<Rightarrow> 'b list \<Rightarrow> ('a \<Rightarrow> 'b \<Rightarrow> bool) \<Rightarrow> ('a \<times> 'b) list" where
  "inner_join xs ys on = concat (map (\<lambda>x. map (Pair x) (filter (on x) ys)) xs)"

text \<open>\<^verbatim>\<open>ORDER BY\<close>; rows with equal keys stay in some order, here the one of a stable sort.\<close>

definition order_asc :: "('a \<Rightarrow> 'k::linorder) \<Rightarrow> 'a list \<Rightarrow> 'a list" where
  "order_asc key rows = sort_key key rows"


text \<open>
  Comparisons of the query language are three-valued: a comparison with \<^verbatim>\<open>NULL\<close>
  (a nil argument) is unknown, and \<^verbatim>\<open>WHERE\<close> keeps a row only when its condition
  is true.
\<close>

definition sql_ge :: "int option \<Rightarrow> int option \<Rightarrow> bool option" where
  "sql_ge a b = (case a of None \<Rightarrow> None
                 | Some x \<Rightarrow> (case b of None \<Rightarrow> None | Some y \<Rightarrow> Some (x \<ge> y)))"

definition sql_le :: "int option \<Rightarrow> int option \<Rightarrow> bool option" where
  "sql_le a b = (case a of None \<Rightarrow> None
                 | Some x \<Rightarrow> (case b of None \<Rightarrow> None | Some y \<Rightarrow> Some (x \<le> y)))"

definition sql_AND :: "bool option \<Rightarrow> bool option \<Rightarrow> bool option" where
  "sql_AND p q =
     (if p = Some False \<or> q = Some False then Some False
      else if p = Some True \<and> q = Some True then Some True
      else None)"

definition sql_true :: "bool option \<Rightarrow> bool" where
  "sql_true p = (p = Some True)"

text \<open>
  \<^verbatim>\<open>Where\<close> with a list of conditions, all of which a row has to meet.
\<close>

definition gorm_Where :: "('a \<Rightarrow> bool) list \<Rightarrow> 'a list \<Rightarrow> 'a list" where
  "gorm_Where conds rows = filter (\<lambda>r. list_all (\<lambda>c. c r) conds) rows"

text \<open>
  \<^verbatim>\<open>Take\<close> reads one row (\<^verbatim>\<open>LIMIT 1\<close>), the first of the rows the query yields, and
  reports \<^verbatim>\<open>ErrRecordNotFound\<close> when there is none; \<^verbatim>\<open>Find\<close> reads all rows and
  has no such error. Both run the model's \<^verbatim>\<open>AfterFind\<close> hook on every row read.
\<close>

fun call_AfterFind :: "('a \<Rightarrow> error + 'a) \<Rightarrow> 'a list \<Rightarrow> error + 'a list" where
  "call_AfterFind hook [] = Inr []"
| "call_AfterFind hook (r # rs) =
     (case hook r of
        Inl e \<Rightarrow> Inl e
      | Inr r' \<Rightarrow> (case call_AfterFind hook rs of
                    Inl e \<Rightarrow> Inl e
                  | Inr rs' \<Rightarrow> Inr (r' # rs')))"

definition gorm_Take :: "('a \<Rightarrow> error + 'a) \<Rightarrow> 'a list \<Rightarrow> error + 'a" where
  "gorm_Take hook rows = (case rows of [] \<Rightarrow> Inl ErrRecordNotFound | r # _ \<Rightarrow> hook r)"

definition gorm_Find :: "('a \<Rightarrow> error + 'a) \<Rightarrow> 'a list \<Rightarrow> error + 'a list" where
  "gorm_Find hook rows = call_AfterFind hook rows"

text \<open>The header types have no hooks.\<close>

definition no_hook :: "'a \<Rightarrow> error + 'a" where
  "no_hook r = Inr r"

subsection \<open>blocks.go\<close>

text \<open>
  \<^verbatim>\<open>Where(&BlockHeader{Number: U256{Int: height}})\<close>: a struct condition uses the
  fields that are not the zero value of their type. All fields but \<open>Number\<close> are zero
  here, and the \<^verbatim>\<open>U256\<close> is the zero value exactly when \<^verbatim>\<open>height\<close> is nil.
\<close>

definition BlockHeader_Number_conds :: "nat option \<Rightarrow> (BlockHeader \<Rightarrow> bool) list" where
  "BlockHeader_Number_conds height =
     (case height of None \<Rightarrow> [] | Some n \<Rightarrow> [\<lambda>r. Number r = n])"

definition blocksDB_StoreL1BlockHeaders :: "DB \<Rightarrow> L1BlockHeader list \<Rightarrow> error option \<times> DB" where
  "blocksDB_StoreL1BlockHeaders db headers =
     (case gorm_Create (\<lambda>h. Hash (L1BlockHeader_BlockHeader h)) (l1_block_headers db) headers of
        Inl err \<Rightarrow> (Some err, db)
      | Inr tbl \<Rightarrow> (None, db\<lparr>l1_block_headers := tbl\<rparr>))"

definition blocksDB_L1BlockHeader :: "DB \<Rightarrow> nat option \<Rightarrow> error + L1BlockHeader option" where
  "blocksDB_L1BlockHeader db height =
     (case gorm_Take no_hook
             (gorm_Where (map (\<lambda>c. c \<circ> L1BlockHeader_BlockHeader) (BlockHeader_Number_conds height))
                (l1_block_headers db)) of
        Inl err \<Rightarrow> if err = ErrRecordNotFound then Inr None else Inl err
      | Inr l1Header \<Rightarrow> Inr (Some l1Header))"


definition blocksDB_StoreL2BlockHeaders :: "DB \<Rightarrow> L2BlockHeader list \<Rightarrow> error option \<times> DB" where
  "blocksDB_StoreL2BlockHeaders db headers =
     (case gorm_Create (\<lambda>h. Hash (L2BlockHeader_BlockHeader h)) (l2_block_headers db) headers of
        Inl err \<Rightarrow> (Some err, db)
      | Inr tbl \<Rightarrow> (None, db\<lparr>l2_block_headers := tbl\<rparr>))"

definition blocksDB_L2BlockHeader :: "DB \<Rightarrow> nat option \<Rightarrow> error + L2BlockHeader option" where
  "blocksDB_L2BlockHeader db height =
     (case gorm_Take no_hook
             (gorm_Where (map (\<lambda>c. c \<circ> L2BlockHeader_BlockHeader) (BlockHeader_Number_conds height))
                (l2_block_headers db)) of
        Inl err \<Rightarrow> if err = ErrRecordNotFound then Inr None else Inl err
      | Inr l2Header \<Rightarrow> Inr (Some l2Header))"



subsection \<open>contract\_events.go\<close>

text \<open>
  \<^verbatim>\<open>ContractEventFromLog\<close>; the first argument is the identifier \<^verbatim>\<open>uuid.New()\<close>
  draws. Reading a field of a nil log panics.
\<close>

definition ContractEventFromLog :: "uuid \<Rightarrow> Log option \<Rightarrow> uint64 \<Rightarrow> error + ContractEvent" where
  "ContractEventFromLog new_uuid log timestamp =
     (case log of
        None \<Rightarrow> Inl PanicNilPointerDereference
      | Some l \<Rightarrow>
          (let eventSig = (if length (Topics l) > 0 then Topics l ! 0 else 0)
           in Inr \<lparr>GUID = new_uuid,
                   BlockHash = Log.BlockHash l,
                   ContractAddress = Address l,
                   TransactionHash = TxHash l,
                   LogIndex = ucast (Index l),
                   EventSignature = eventSig,
                   Timestamp = timestamp,
                   RLPLog = Some l\<rparr>))"

text \<open>
  \<^verbatim>\<open>AfterFind\<close> assigns through the \<open>RLPLog\<close> pointer, which panics when the
  pointer is nil; otherwise it returns no error and leaves the event updated.
\<close>

definition AfterFind :: "ContractEvent \<Rightarrow> error + ContractEvent" where
  "AfterFind c =
     (case RLPLog c of
        None \<Rightarrow> Inl PanicNilPointerDereference
      | Some log \<Rightarrow>
          Inr (c\<lparr>RLPLog := Some (log\<lparr>Log.BlockHash := ContractEvent.BlockHash c,
                                     TxHash := TransactionHash c,
                                     Index := ucast (LogIndex c)\<rparr>)\<rparr>))"

text \<open>The per-chain event types embed \<open>ContractEvent\<close> and so have its hook.\<close>

definition L1ContractEvent_AfterFind :: "L1ContractEvent \<Rightarrow> error + L1ContractEvent" where
  "L1ContractEvent_AfterFind e =
     (case AfterFind (L1ContractEvent_ContractEvent e) of
        Inl err \<Rightarrow> Inl err
      | Inr c \<Rightarrow> Inr (L1ContractEvent c))"

definition L2ContractEvent_AfterFind :: "L2ContractEvent \<Rightarrow> error + L2ContractEvent" where
  "L2ContractEvent_AfterFind e =
     (case AfterFind (L2ContractEvent_ContractEvent e) of
        Inl err \<Rightarrow> Inl err
      | Inr c \<Rightarrow> Inr (L2ContractEvent c))"

text \<open>
  The \<open>rlp_bytes\<close> column holds the encoding of a log, which covers its consensus
  fields; two logs have the same column value when these agree.
\<close>

definition rlp_bytes :: "Log \<Rightarrow> address \<times> hash list \<times> bytes" where
  "rlp_bytes l = (Address l, Topics l, Data l)"

text \<open>The zero value \<^verbatim>\<open>ContractEvent{}\<close>.\<close>

definition ContractEvent_zero :: ContractEvent where
  "ContractEvent_zero =
     \<lparr>GUID = 0, BlockHash = 0, ContractAddress = 0, TransactionHash = 0, LogIndex = 0,
      EventSignature = 0, Timestamp = 0, RLPLog = None\<rparr>"

text \<open>
  \<^verbatim>\<open>Where(&filter)\<close> with a \<open>ContractEvent\<close>: one equality per field of the struct
  that is not the zero value of its type; a zero field adds no condition.
\<close>

definition ContractEvent_conds :: "ContractEvent \<Rightarrow> (ContractEvent \<Rightarrow> bool) list" where
  "ContractEvent_conds f =
     (if GUID f = 0 then [] else [\<lambda>r. GUID r = GUID f]) @
     (if ContractEvent.BlockHash f = 0 then []
      else [\<lambda>r. ContractEvent.BlockHash r = ContractEvent.BlockHash f]) @
     (if ContractAddress f = 0 then [] else [\<lambda>r. ContractAddress r = ContractAddress f]) @
     (if TransactionHash f = 0 then [] else [\<lambda>r. TransactionHash r = TransactionHash f]) @
     (if LogIndex f = 0 then [] else [\<lambda>r. LogIndex r = LogIndex f]) @
     (if EventSignature f = 0 then [] else [\<lambda>r. EventSignature r = EventSignature f]) @
     (if ContractEvent.Timestamp f = 0 then []
      else [\<lambda>r. ContractEvent.Timestamp r = ContractEvent.Timestamp f]) @
     (case RLPLog f of
        None \<Rightarrow> []
      | Some l \<Rightarrow> [\<lambda>r. map_option rlp_bytes (RLPLog r) = Some (rlp_bytes l)])"

text \<open>
  The methods of \<^verbatim>\<open>contractEventsDB\<close>, first for L1. \<open>GUID\<close> is the primary key
  of an event table. The range query is written in the order the database evaluates
  it: the join of events and headers on \<^verbatim>\<open>block_hash = hash\<close>, the conditions of
  the filter struct and of the two bounds, the order by the header's number, and of each
  row the columns of the event.
\<close>

definition contractEventsDB_StoreL1ContractEvents :: "DB \<Rightarrow> L1ContractEvent list \<Rightarrow> error option \<times> DB" where
  "contractEventsDB_StoreL1ContractEvents db events =
     (case gorm_Create (\<lambda>e. GUID (L1ContractEvent_ContractEvent e)) (l1_contract_events db) events of
        Inl err \<Rightarrow> (Some err, db)
      | Inr tbl \<Rightarrow> (None, db\<lparr>l1_contract_events := tbl\<rparr>))"

definition contractEventsDB_L1ContractEvent :: "DB \<Rightarrow> uuid \<Rightarrow> error + L1ContractEvent option" where
  "contractEventsDB_L1ContractEvent db uuid =
     (case gorm_Take L1ContractEvent_AfterFind
             (gorm_Where
                (map (\<lambda>c. c \<circ> L1ContractEvent_ContractEvent)
                   (ContractEvent_conds (ContractEvent_zero\<lparr>GUID := uuid\<rparr>)))
                (l1_contract_events db)) of
        Inl err \<Rightarrow> if err = ErrRecordNotFound then Inr None else Inl err
      | Inr l1ContractEvent \<Rightarrow> Inr (Some l1ContractEvent))"

definition contractEventsDB_L1ContractEventByTxLogIndex ::
  "DB \<Rightarrow> hash \<Rightarrow> uint64 \<Rightarrow> error + L1ContractEvent option" where
  "contractEventsDB_L1ContractEventByTxLogIndex db txHash logIndex =
     (case gorm_Take L1ContractEvent_AfterFind
             (gorm_Where
                (map (\<lambda>c. c \<circ> L1ContractEvent_ContractEvent)
                   (ContractEvent_conds
                      (ContractEvent_zero\<lparr>TransactionHash := txHash, LogIndex := logIndex\<rparr>)))
                (l1_contract_events db)) of
        Inl err \<Rightarrow> if err = ErrRecordNotFound then Inr None else Inl err
      | Inr l1ContractEvent \<Rightarrow> Inr (Some l1ContractEvent))"

definition contractEventsDB_L1ContractEventsWithFilter ::
  "DB \<Rightarrow> ContractEvent \<Rightarrow> int option \<Rightarrow> int option \<Rightarrow> error + L1ContractEvent list" where
  "contractEventsDB_L1ContractEventsWithFilter db filter' fromHeight toHeight =
     (let fromHeight = (if fromHeight = None then Some 0 else fromHeight);
          query = gorm_Where
                    (map (\<lambda>c. c \<circ> L1ContractEvent_ContractEvent \<circ> fst) (ContractEvent_conds filter'))
                    (inner_join (l1_contract_events db) (l1_block_headers db)
                       (\<lambda>e h. ContractEvent.BlockHash (L1ContractEvent_ContractEvent e)
                              = Hash (L1BlockHeader_BlockHeader h)));
          query = gorm_Where
                    [\<lambda>(e, h). sql_true
                       (sql_AND
                          (sql_ge (Some (int (Number (L1BlockHeader_BlockHeader h)))) fromHeight)
                          (sql_le (Some (int (Number (L1BlockHeader_BlockHeader h)))) toHeight))]
                    query;
          query = map fst (order_asc (\<lambda>(e, h). Number (L1BlockHeader_BlockHeader h)) query)
      in case gorm_Find L1ContractEvent_AfterFind query of
           Inl err \<Rightarrow> if err = ErrRecordNotFound then Inr [] else Inl err
         | Inr events \<Rightarrow> Inr events)"

text \<open>The same methods for L2.\<close>

definition contractEventsDB_StoreL2ContractEvents :: "DB \<Rightarrow> L2ContractEvent list \<Rightarrow> error option \<times> DB" where
  "contractEventsDB_StoreL2ContractEvents db events =
     (case gorm_Create (\<lambda>e. GUID (L2ContractEvent_ContractEvent e)) (l2_contract_events db) events of
        Inl err \<Rightarrow> (Some err, db)
      | Inr tbl \<Rightarrow> (None, db\<lparr>l2_contract_events := tbl\<rparr>))"

definition contractEventsDB_L2ContractEvent :: "DB \<Rightarrow> uuid \<Rightarrow> error + L2ContractEvent option" where
  "contractEventsDB_L2ContractEvent db uuid =
     (case gorm_Take L2ContractEvent_AfterFind
             (gorm_Where
                (map (\<lambda>c. c \<circ> L2ContractEvent_ContractEvent)
                   (ContractEvent_conds (ContractEvent_zero\<lparr>GUID := uuid\<rparr>)))
                (l2_contract_events db)) of
        Inl err \<Rightarrow> if err = ErrRecordNotFound then Inr None else Inl err
      | Inr l2ContractEvent \<Rightarrow> Inr (Some l2ContractEvent))"

definition contractEventsDB_L2ContractEventByTxLogIndex ::
  "DB \<Rightarrow> hash \<Rightarrow> uint64 \<Rightarrow> error + L2ContractEvent option" where
  "contractEventsDB_L2ContractEventByTxLogIndex db txHash logIndex =
     (case gorm_Take L2ContractEvent_AfterFind
             (gorm_Where
                (map (\<lambda>c. c \<circ> L2ContractEvent_ContractEvent)
                   (ContractEvent_conds
                      (ContractEvent_zero\<lparr>TransactionHash := txHash, LogIndex := logIndex\<rparr>)))
                (l2_contract_events db)) of
        Inl err \<Rightarrow> if err = ErrRecordNotFound then Inr None else Inl err
      | Inr l2ContractEvent \<Rightarrow> Inr (Some l2ContractEvent))"

definition contractEventsDB_L2ContractEventsWithFilter ::
  "DB \<Rightarrow> ContractEvent \<Rightarrow> int option \<Rightarrow> int option \<Rightarrow> error + L2ContractEvent list" where
  "contractEventsDB_L2ContractEventsWithFilter db filter' fromHeight toHeight =
     (let fromHeight = (if fromHeight = None then Some 0 else fromHeight);
          query = gorm_Where
                    (map (\<lambda>c. c \<circ> L2ContractEvent_ContractEvent \<circ> fst) (ContractEvent_conds filter'))
                    (inner_join (l2_contract_events db) (l2_block_headers db)
                       (\<lambda>e h. ContractEvent.BlockHash (L2ContractEvent_ContractEvent e)
                              = Hash (L2BlockHeader_BlockHeader h)));
          query = gorm_Where
                    [\<lambda>(e, h). sql_true
                       (sql_AND
                          (sql_ge (Some (int (Number (L2BlockHeader_BlockHeader h)))) fromHeight)
                          (sql_le (Some (int (Number (L2BlockHeader_BlockHeader h)))) toHeight))]
                    query;
          query = map fst (order_asc (\<lambda>(e, h). Number (L2BlockHeader_BlockHeader h)) query)
      in case gorm_Find L2ContractEvent_AfterFind query of
           Inl err \<Rightarrow> if err = ErrRecordNotFound then Inr [] else Inl err
         | Inr events \<Rightarrow> Inr events)"

text \<open>The entry point for both chains; the loop that copies the events is a \<open>map\<close>.\<close>

definition contractEventsDB_ContractEventsWithFilter ::
  "DB \<Rightarrow> ContractEvent \<Rightarrow> string \<Rightarrow> int option \<Rightarrow> int option \<Rightarrow> error + ContractEvent list" where
  "contractEventsDB_ContractEventsWithFilter db filter' chain fromHeight toHeight =
     (if chain = ''l1'' then
        (case contractEventsDB_L1ContractEventsWithFilter db filter' fromHeight toHeight of
           Inl err \<Rightarrow> Inl err
         | Inr l1Events \<Rightarrow> Inr (map L1ContractEvent_ContractEvent l1Events))
      else if chain = ''l2'' then
        (case contractEventsDB_L2ContractEventsWithFilter db filter' fromHeight toHeight of
           Inl err \<Rightarrow> Inl err
         | Inr l2Events \<Rightarrow> Inr (map L2ContractEvent_ContractEvent l2Events))
      else Inl (ErrorString (''expected '' @ [CHR 0x27] @ ''l1'' @ [CHR 0x27] @ '' or ''
                             @ [CHR 0x27] @ ''l2'' @ [CHR 0x27] @ '' for chain type'')))"

subsection \<open>The words of the specification\<close>

text \<open>
  The raw log of an event agrees with the canonical columns: its block hash,
  transaction hash and log index are those of the event.
\<close>

definition RawLog_reconciled :: "ContractEvent \<Rightarrow> bool" where
  "RawLog_reconciled c =
     (case RLPLog c of
        None \<Rightarrow> False
      | Some l \<Rightarrow> Log.BlockHash l = ContractEvent.BlockHash c \<and>
                 TxHash l = TransactionHash c \<and>
                 Index l = LogIndex c)"

text \<open>An event is what \<open>ContractEventFromLog\<close> builds from the log it carries.\<close>

definition built_from_log :: "ContractEvent \<Rightarrow> bool" where
  "built_from_log c =
     (case RLPLog c of
        None \<Rightarrow> False
      | Some l \<Rightarrow> ContractEventFromLog (GUID c) (Some l) (ContractEvent.Timestamp c) = Inr c)"





subsection \<open>A small database\<close>

text \<open>
  Two L1 headers and two L2 headers, of which L1 block 100 and L2 block 500 share the
  timestamp 1000, and three events. The logs of the events are as the decoder leaves
  them: the derived fields are blank.
\<close>

definition l1_header_100 :: L1BlockHeader where
  "l1_header_100 = L1BlockHeader
     \<lparr>Hash = 0xA100, ParentHash = 0xA099, Number = 100, Timestamp = 1000, RLPHeader = None\<rparr>"

definition l1_header_101 :: L1BlockHeader where
  "l1_header_101 = L1BlockHeader
     \<lparr>Hash = 0xA101, ParentHash = 0xA100, Number = 101, Timestamp = 1010, RLPHeader = None\<rparr>"

definition l2_header_499 :: L2BlockHeader where
  "l2_header_499 = L2BlockHeader
     \<lparr>Hash = 0xB499, ParentHash = 0xB498, Number = 499, Timestamp = 900, RLPHeader = None\<rparr>"

definition l2_header_500 :: L2BlockHeader where
  "l2_header_500 = L2BlockHeader
     \<lparr>Hash = 0xB500, ParentHash = 0xB499, Number = 500, Timestamp = 1000, RLPHeader = None\<rparr>"

definition blank_log :: Log where
  "blank_log =
     \<lparr>Address = 0xC0, Topics = [0xE0], Data = [], BlockNumber = 0, TxHash = 0, TxIndex = 0,
      BlockHash = 0, Index = 0, Removed = False\<rparr>"

definition event_A :: ContractEvent where
  "event_A =
     \<lparr>GUID = 1, BlockHash = 0xA100, ContractAddress = 0xC0, TransactionHash = 0x71,
      LogIndex = 1, EventSignature = 0xE0, Timestamp = 1000, RLPLog = Some blank_log\<rparr>"

definition event_B :: ContractEvent where
  "event_B =
     \<lparr>GUID = 2, BlockHash = 0xA101, ContractAddress = 0xC0, TransactionHash = 0x72,
      LogIndex = 0, EventSignature = 0xE0, Timestamp = 1010, RLPLog = Some blank_log\<rparr>"

definition event_C :: ContractEvent where
  "event_C =
     \<lparr>GUID = 3, BlockHash = 0xB500, ContractAddress = 0xC0, TransactionHash = 0x73,
      LogIndex = 2, EventSignature = 0xE0, Timestamp = 1000, RLPLog = Some blank_log\<rparr>"

definition empty_db :: DB where
  "empty_db =
     \<lparr>l1_block_headers = [], l2_block_headers = [],
      l1_contract_events = [], l2_contract_events = []\<rparr>"

definition example_db :: DB where
  "example_db =
     \<lparr>l1_block_headers = [l1_header_100, l1_header_101],
      l2_block_headers = [l2_header_499, l2_header_500],
      l1_contract_events = [L1ContractEvent event_B, L1ContractEvent event_A],
      l2_contract_events = [L2ContractEvent event_C]\<rparr>"

text \<open>A second header with the number 101, as a fork of the chain would have.\<close>

definition l1_header_101b :: L1BlockHeader where
  "l1_header_101b = L1BlockHeader
     \<lparr>Hash = 0xA1FF, ParentHash = 0xA100, Number = 101, Timestamp = 1012, RLPHeader = None\<rparr>"

text \<open>
  The same events as they are read back, the hook having filled in the derived fields
  of their logs.
\<close>

definition event_A_read :: ContractEvent where
  "event_A_read = event_A\<lparr>RLPLog :=
       Some (blank_log\<lparr>Log.BlockHash := 0xA100, TxHash := 0x71, Index := 1\<rparr>)\<rparr>"

definition event_B_read :: ContractEvent where
  "event_B_read = event_B\<lparr>RLPLog :=
       Some (blank_log\<lparr>Log.BlockHash := 0xA101, TxHash := 0x72, Index := 0\<rparr>)\<rparr>"

definition event_C_read :: ContractEvent where
  "event_C_read = event_C\<lparr>RLPLog :=
       Some (blank_log\<lparr>Log.BlockHash := 0xB500, TxHash := 0x73, Index := 2\<rparr>)\<rparr>"

text \<open>
  Two logs as a chain node reports them, and a database whose events were built from
  them by \<open>ContractEventFromLog\<close>.
\<close>

definition log_A :: Log where
  "log_A =
     \<lparr>Address = 0xC0, Topics = [0xE0], Data = [], BlockNumber = 100, TxHash = 0x71, TxIndex = 0,
      BlockHash = 0xA100, Index = 1, Removed = False\<rparr>"

definition log_C :: Log where
  "log_C =
     \<lparr>Address = 0xC0, Topics = [], Data = [], BlockNumber = 500, TxHash = 0x73, TxIndex = 0,
      BlockHash = 0xB500, Index = 2, Removed = False\<rparr>"

definition ingested_db :: DB where
  "ingested_db =
     \<lparr>l1_block_headers = [l1_header_100, l1_header_101],
      l2_block_headers = [l2_header_499, l2_header_500],
      l1_contract_events = [L1ContractEvent (event_A\<lparr>RLPLog := Some log_A\<rparr>)],
      l2_contract_events =
        [L2ContractEvent (event_C\<lparr>EventSignature := 0, RLPLog := Some log_C\<rparr>)]\<rparr>"

text \<open>A database whose events lost their logs: the \<open>RLPLog\<close> pointers are nil.\<close>

definition nil_log_db :: DB where
  "nil_log_db =
     example_db\<lparr>l1_contract_events := [L1ContractEvent (event_A\<lparr>RLPLog := None\<rparr>)],
                l2_contract_events := [L2ContractEvent (event_C\<lparr>RLPLog := None\<rparr>)]\<rparr>"

section \<open>Properties\<close>

subsection \<open>Reading one row\<close>










lemmas example_defs =
  example_db_def empty_db_def l1_header_100_def l1_header_101_def l2_header_499_def
  l2_header_500_def l1_header_101b_def event_A_def event_B_def event_C_def blank_log_def
  event_A_read_def event_B_read_def event_C_read_def log_A_def log_C_def ingested_db_def nil_log_db_def

subsection \<open>The latest header\<close>



subsection \<open>Storing headers\<close>

lemma insert_rows_eq:
  "insert_rows pk tbl rs =
     (if distinct (map pk rs) \<and> pk ` set rs \<inter> pk ` set tbl = {}
      then Inr (tbl @ rs) else Inl ErrDuplicatedKey)"
proof (induction rs arbitrary: tbl)
  case Nil
  show ?case by simp
next
  case (Cons r rs)
  show ?case
  proof (cases "pk r \<in> pk ` set tbl")
    case True
    then show ?thesis by auto
  next
    case False
    have "insert_rows pk tbl (r # rs) = insert_rows pk (tbl @ [r]) rs"
      using False by simp
    also have "\<dots> = (if distinct (map pk rs) \<and> pk ` set rs \<inter> pk ` set (tbl @ [r]) = {}
                      then Inr ((tbl @ [r]) @ rs) else Inl ErrDuplicatedKey)"
      by (rule Cons.IH)
    also have "\<dots> = (if distinct (map pk (r # rs)) \<and> pk ` set (r # rs) \<inter> pk ` set tbl = {}
                      then Inr (tbl @ r # rs) else Inl ErrDuplicatedKey)"
      using False by auto
    finally show ?thesis .
  qed
qed

lemma gorm_Create_cases:
  "gorm_Create pk tbl vals = Inr (tbl @ vals) \<or> gorm_Create pk tbl vals = Inl ErrEmptySlice
   \<or> gorm_Create pk tbl vals = Inl ErrDuplicatedKey"
  by (simp add: gorm_Create_def insert_rows_eq)

lemma gorm_Create_duplicate:
  "vals \<noteq> [] \<Longrightarrow> r \<in> set vals \<Longrightarrow> pk r \<in> pk ` set tbl \<Longrightarrow>
     gorm_Create pk tbl vals = Inl ErrDuplicatedKey"
  by (auto simp: gorm_Create_def insert_rows_eq)

lemma gorm_Create_Inr: "gorm_Create pk tbl vals = Inr tbl' \<Longrightarrow> tbl' = tbl @ vals"
  by (auto simp: gorm_Create_def insert_rows_eq split: if_splits)

text \<open>
  Claim C8. Storing a non-empty batch of headers fails with the duplicate-key error
  whenever a header of the batch has a \<open>Hash\<close> that is already in the chain's table,
  and after any failure the database is the one before the call: no row of the batch
  is kept.
\<close>

theorem store_headers_atomic:
  "(headers1 \<noteq> [] \<and>
      (\<exists>h\<in>set headers1. \<exists>h'\<in>set (l1_block_headers db).
          Hash (L1BlockHeader_BlockHeader h) = Hash (L1BlockHeader_BlockHeader h'))
    \<longrightarrow> fst (blocksDB_StoreL1BlockHeaders db headers1) = Some ErrDuplicatedKey) \<and>
   (fst (blocksDB_StoreL1BlockHeaders db headers1) \<noteq> None
    \<longrightarrow> snd (blocksDB_StoreL1BlockHeaders db headers1) = db) \<and>
   (headers2 \<noteq> [] \<and>
      (\<exists>h\<in>set headers2. \<exists>h'\<in>set (l2_block_headers db).
          Hash (L2BlockHeader_BlockHeader h) = Hash (L2BlockHeader_BlockHeader h'))
    \<longrightarrow> fst (blocksDB_StoreL2BlockHeaders db headers2) = Some ErrDuplicatedKey) \<and>
   (fst (blocksDB_StoreL2BlockHeaders db headers2) \<noteq> None
    \<longrightarrow> snd (blocksDB_StoreL2BlockHeaders db headers2) = db)"
proof (intro conjI impI)
  assume "headers1 \<noteq> [] \<and>
      (\<exists>h\<in>set headers1. \<exists>h'\<in>set (l1_block_headers db).
          Hash (L1BlockHeader_BlockHeader h) = Hash (L1BlockHeader_BlockHeader h'))"
  then obtain h where "headers1 \<noteq> []" "h \<in> set headers1"
    "Hash (L1BlockHeader_BlockHeader h)
       \<in> (\<lambda>h. Hash (L1BlockHeader_BlockHeader h)) ` set (l1_block_headers db)"
    by auto
  then have "gorm_Create (\<lambda>h. Hash (L1BlockHeader_BlockHeader h)) (l1_block_headers db) headers1
               = Inl ErrDuplicatedKey"
    by (rule gorm_Create_duplicate)
  then show "fst (blocksDB_StoreL1BlockHeaders db headers1) = Some ErrDuplicatedKey"
    by (simp add: blocksDB_StoreL1BlockHeaders_def)
next
  assume "headers2 \<noteq> [] \<and>
      (\<exists>h\<in>set headers2. \<exists>h'\<in>set (l2_block_headers db).
          Hash (L2BlockHeader_BlockHeader h) = Hash (L2BlockHeader_BlockHeader h'))"
  then obtain h where "headers2 \<noteq> []" "h \<in> set headers2"
    "Hash (L2BlockHeader_BlockHeader h)
       \<in> (\<lambda>h. Hash (L2BlockHeader_BlockHeader h)) ` set (l2_block_headers db)"
    by auto
  then have "gorm_Create (\<lambda>h. Hash (L2BlockHeader_BlockHeader h)) (l2_block_headers db) headers2
               = Inl ErrDuplicatedKey"
    by (rule gorm_Create_duplicate)
  then show "fst (blocksDB_StoreL2BlockHeaders db headers2) = Some ErrDuplicatedKey"
    by (simp add: blocksDB_StoreL2BlockHeaders_def)
next
  assume "fst (blocksDB_StoreL1BlockHeaders db headers1) \<noteq> None"
  then show "snd (blocksDB_StoreL1BlockHeaders db headers1) = db"
    by (simp add: blocksDB_StoreL1BlockHeaders_def split: sum.splits)
next
  assume "fst (blocksDB_StoreL2BlockHeaders db headers2) \<noteq> None"
  then show "snd (blocksDB_StoreL2BlockHeaders db headers2) = db"
    by (simp add: blocksDB_StoreL2BlockHeaders_def split: sum.splits)
qed

theorem store_headers_atomic_witness:
  "blocksDB_StoreL1BlockHeaders example_db [l1_header_101b, l1_header_100]
     = (Some ErrDuplicatedKey, example_db) \<and>
   blocksDB_StoreL2BlockHeaders example_db [l2_header_500]
     = (Some ErrDuplicatedKey, example_db)"
  using store_headers_atomic[of "[l1_header_101b, l1_header_100]" example_db "[l2_header_500]"]
  by (auto simp: example_defs prod_eq_iff)

subsection \<open>The header with a given number\<close>





lemma Where_Number_None:
  "gorm_Where (map (\<lambda>c. c \<circ> sel) (BlockHeader_Number_conds None)) rows = rows"
  by (simp add: gorm_Where_def BlockHeader_Number_conds_def)





text \<open>
  A height that is nil makes the \<^verbatim>\<open>U256\<close> of the condition the zero value, so the
  query has no condition at all and yields the first row of the table.
\<close>

lemma header_by_nil_number:
  "blocksDB_L1BlockHeader example_db None = Inr (Some l1_header_100) \<and>
   blocksDB_L2BlockHeader example_db None = Inr (Some l2_header_499)"
  by (simp add: blocksDB_L1BlockHeader_def blocksDB_L2BlockHeader_def Where_Number_None
      gorm_Take_def no_hook_def example_db_def)




subsection \<open>The latest epoch\<close>

lemma set_inner_join:
  "set (inner_join xs ys on) = {(x, y). x \<in> set xs \<and> y \<in> set ys \<and> on x y}"
  by (auto simp: inner_join_def)



subsection \<open>The hook that runs after a read\<close>

lemma AfterFind_Inr:
  "AfterFind c = Inr c' \<Longrightarrow>
     RawLog_reconciled c' \<and> RLPLog c \<noteq> None \<and>
     c' = c\<lparr>RLPLog := RLPLog c'\<rparr>"
  by (auto simp: AfterFind_def RawLog_reconciled_def split: option.splits)

lemma AfterFind_Inl:
  "AfterFind c = Inl err \<longleftrightarrow> RLPLog c = None \<and> err = PanicNilPointerDereference"
  by (auto simp: AfterFind_def split: option.splits)

lemma L1_AfterFind_Inr:
  "L1ContractEvent_AfterFind e = Inr e' \<Longrightarrow>
     AfterFind (L1ContractEvent_ContractEvent e) = Inr (L1ContractEvent_ContractEvent e')"
  by (auto simp: L1ContractEvent_AfterFind_def split: sum.splits)

lemma L2_AfterFind_Inr:
  "L2ContractEvent_AfterFind e = Inr e' \<Longrightarrow>
     AfterFind (L2ContractEvent_ContractEvent e) = Inr (L2ContractEvent_ContractEvent e')"
  by (auto simp: L2ContractEvent_AfterFind_def split: sum.splits)

lemma L1_AfterFind_Inl:
  "L1ContractEvent_AfterFind e = Inl err \<longleftrightarrow>
     RLPLog (L1ContractEvent_ContractEvent e) = None \<and> err = PanicNilPointerDereference"
  by (auto simp: L1ContractEvent_AfterFind_def AfterFind_def split: option.splits)

lemma L2_AfterFind_Inl:
  "L2ContractEvent_AfterFind e = Inl err \<longleftrightarrow>
     RLPLog (L2ContractEvent_ContractEvent e) = None \<and> err = PanicNilPointerDereference"
  by (auto simp: L2ContractEvent_AfterFind_def AfterFind_def split: option.splits)

lemma gorm_Take_Inr:
  "gorm_Take hook rows = Inr r \<Longrightarrow> rows \<noteq> [] \<and> hook (hd rows) = Inr r"
  by (cases rows) (simp_all add: gorm_Take_def)

lemma gorm_Take_Inl:
  "gorm_Take hook rows = Inl err \<Longrightarrow>
     (rows = [] \<and> err = ErrRecordNotFound) \<or> (rows \<noteq> [] \<and> hook (hd rows) = Inl err)"
  by (cases rows) (simp_all add: gorm_Take_def)

lemma call_AfterFind_Inr:
  "call_AfterFind hook rows = Inr rs \<Longrightarrow> list_all2 (\<lambda>r r'. hook r = Inr r') rows rs"
  by (induction rows arbitrary: rs) (auto split: sum.splits)


lemma call_AfterFind_total:
  "\<forall>r\<in>set rows. \<exists>r'. hook r = Inr r' \<Longrightarrow> \<exists>rs. call_AfterFind hook rows = Inr rs"
  by (induction rows) (auto split: sum.splits)

lemma set_gorm_Where: "set (gorm_Where conds rows) \<subseteq> set rows"
  by (auto simp: gorm_Where_def)

lemma set_query_rows:
  "fst ` set j \<subseteq> S \<Longrightarrow>
     set (map fst (order_asc k (gorm_Where c2 (gorm_Where c1 j)))) \<subseteq> S"
  by (auto simp: order_asc_def gorm_Where_def)

text \<open>The rows a range query reads, before the hook runs.\<close>

lemma L1_WithFilter_rows:
  "\<exists>rows. set rows \<subseteq> set (l1_contract_events db) \<and>
     contractEventsDB_L1ContractEventsWithFilter db f lo hi =
       (case call_AfterFind L1ContractEvent_AfterFind rows of
          Inl err \<Rightarrow> if err = ErrRecordNotFound then Inr [] else Inl err
        | Inr events \<Rightarrow> Inr events)"
proof -
  let ?j = "inner_join (l1_contract_events db) (l1_block_headers db)
              (\<lambda>e h. ContractEvent.BlockHash (L1ContractEvent_ContractEvent e)
                     = Hash (L1BlockHeader_BlockHeader h))"
  have "fst ` set ?j \<subseteq> set (l1_contract_events db)"
    by (auto simp: set_inner_join)
  then have "\<And>c1 c2 k. set (map fst (order_asc k (gorm_Where c2 (gorm_Where c1 ?j))))
               \<subseteq> set (l1_contract_events db)"
    by (rule set_query_rows)
  then show ?thesis
    unfolding contractEventsDB_L1ContractEventsWithFilter_def Let_def gorm_Find_def
    by blast
qed

lemma L2_WithFilter_rows:
  "\<exists>rows. set rows \<subseteq> set (l2_contract_events db) \<and>
     contractEventsDB_L2ContractEventsWithFilter db f lo hi =
       (case call_AfterFind L2ContractEvent_AfterFind rows of
          Inl err \<Rightarrow> if err = ErrRecordNotFound then Inr [] else Inl err
        | Inr events \<Rightarrow> Inr events)"
proof -
  let ?j = "inner_join (l2_contract_events db) (l2_block_headers db)
              (\<lambda>e h. ContractEvent.BlockHash (L2ContractEvent_ContractEvent e)
                     = Hash (L2BlockHeader_BlockHeader h))"
  have "fst ` set ?j \<subseteq> set (l2_contract_events db)"
    by (auto simp: set_inner_join)
  then have "\<And>c1 c2 k. set (map fst (order_asc k (gorm_Where c2 (gorm_Where c1 ?j))))
               \<subseteq> set (l2_contract_events db)"
    by (rule set_query_rows)
  then show ?thesis
    unfolding contractEventsDB_L2ContractEventsWithFilter_def Let_def gorm_Find_def
    by blast
qed

lemma L1_WithFilter_reconciled:
  assumes "contractEventsDB_L1ContractEventsWithFilter db f lo hi = Inr es" and "e \<in> set es"
  shows "RawLog_reconciled (L1ContractEvent_ContractEvent e)"
proof -
  from L1_WithFilter_rows[of db f lo hi] obtain rows where
    eq: "contractEventsDB_L1ContractEventsWithFilter db f lo hi =
       (case call_AfterFind L1ContractEvent_AfterFind rows of
          Inl err \<Rightarrow> if err = ErrRecordNotFound then Inr [] else Inl err
        | Inr events \<Rightarrow> Inr events)"
    by blast
  show ?thesis
  proof (cases "call_AfterFind L1ContractEvent_AfterFind rows")
    case (Inl err)
    with eq assms show ?thesis by (simp split: if_splits)
  next
    case (Inr rs)
    with eq assms have "rs = es" by simp
    with Inr have "list_all2 (\<lambda>r r'. L1ContractEvent_AfterFind r = Inr r') rows es"
      by (auto dest: call_AfterFind_Inr)
    with assms(2) obtain r where "L1ContractEvent_AfterFind r = Inr e"
      by (auto simp: list_all2_conv_all_nth in_set_conv_nth)
    then show ?thesis by (auto dest: L1_AfterFind_Inr AfterFind_Inr)
  qed
qed

lemma L2_WithFilter_reconciled:
  assumes "contractEventsDB_L2ContractEventsWithFilter db f lo hi = Inr es" and "e \<in> set es"
  shows "RawLog_reconciled (L2ContractEvent_ContractEvent e)"
proof -
  from L2_WithFilter_rows[of db f lo hi] obtain rows where
    eq: "contractEventsDB_L2ContractEventsWithFilter db f lo hi =
       (case call_AfterFind L2ContractEvent_AfterFind rows of
          Inl err \<Rightarrow> if err = ErrRecordNotFound then Inr [] else Inl err
        | Inr events \<Rightarrow> Inr events)"
    by blast
  show ?thesis
  proof (cases "call_AfterFind L2ContractEvent_AfterFind rows")
    case (Inl err)
    with eq assms show ?thesis by (simp split: if_splits)
  next
    case (Inr rs)
    with eq assms have "rs = es" by simp
    with Inr have "list_all2 (\<lambda>r r'. L2ContractEvent_AfterFind r = Inr r') rows es"
      by (auto dest: call_AfterFind_Inr)
    with assms(2) obtain r where "L2ContractEvent_AfterFind r = Inr e"
      by (auto simp: list_all2_conv_all_nth in_set_conv_nth)
    then show ?thesis by (auto dest: L2_AfterFind_Inr AfterFind_Inr)
  qed
qed

lemma Take_L1_reconciled:
  "(case gorm_Take L1ContractEvent_AfterFind rows of
      Inl err \<Rightarrow> if err = ErrRecordNotFound then Inr None else Inl err
    | Inr r \<Rightarrow> Inr (Some r)) = Inr (Some e)
   \<Longrightarrow> RawLog_reconciled (L1ContractEvent_ContractEvent e)"
  by (auto split: sum.splits if_splits dest!: gorm_Take_Inr L1_AfterFind_Inr AfterFind_Inr)

lemma Take_L2_reconciled:
  "(case gorm_Take L2ContractEvent_AfterFind rows of
      Inl err \<Rightarrow> if err = ErrRecordNotFound then Inr None else Inl err
    | Inr r \<Rightarrow> Inr (Some r)) = Inr (Some e)
   \<Longrightarrow> RawLog_reconciled (L2ContractEvent_ContractEvent e)"
  by (auto split: sum.splits if_splits dest!: gorm_Take_Inr L2_AfterFind_Inr AfterFind_Inr)

lemmas eval_defs =
  contractEventsDB_L1ContractEvent_def contractEventsDB_L2ContractEvent_def
  contractEventsDB_L1ContractEventByTxLogIndex_def contractEventsDB_L2ContractEventByTxLogIndex_def
  contractEventsDB_L1ContractEventsWithFilter_def contractEventsDB_L2ContractEventsWithFilter_def
  contractEventsDB_ContractEventsWithFilter_def
  gorm_Take_def gorm_Find_def gorm_Where_def ContractEvent_conds_def ContractEvent_zero_def
  L1ContractEvent_AfterFind_def L2ContractEvent_AfterFind_def AfterFind_def
  inner_join_def order_asc_def sql_ge_def sql_le_def sql_AND_def sql_true_def Let_def

lemma example_reads:
  "contractEventsDB_L1ContractEvent example_db 1 = Inr (Some (L1ContractEvent event_A_read))"
  "contractEventsDB_L1ContractEventByTxLogIndex example_db 0x71 1
     = Inr (Some (L1ContractEvent event_A_read))"
  "contractEventsDB_L1ContractEventsWithFilter example_db ContractEvent_zero None (Some 101)
     = Inr [L1ContractEvent event_A_read, L1ContractEvent event_B_read]"
  "contractEventsDB_L2ContractEvent example_db 3 = Inr (Some (L2ContractEvent event_C_read))"
  "contractEventsDB_L2ContractEventByTxLogIndex example_db 0x73 2
     = Inr (Some (L2ContractEvent event_C_read))"
  "contractEventsDB_L2ContractEventsWithFilter example_db ContractEvent_zero None (Some 500)
     = Inr [L2ContractEvent event_C_read]"
  "contractEventsDB_ContractEventsWithFilter example_db ContractEvent_zero ''l2'' None (Some 500)
     = Inr [event_C_read]"
  by (simp_all add: eval_defs example_defs)

text \<open>
  Claim C3. Every event that a read operation of the event store returns, from a
  lookup of one event or from a range query of either chain or of the dual-chain entry
  point, carries a raw log whose block hash, transaction hash and log index are the
  event's canonical \<open>BlockHash\<close>, \<open>TransactionHash\<close> and \<open>LogIndex\<close>, whatever
  the stored log held in these fields.
\<close>

theorem read_reconciles_raw_log:
  "(contractEventsDB_L1ContractEvent db guid = Inr (Some e1)
      \<longrightarrow> RawLog_reconciled (L1ContractEvent_ContractEvent e1)) \<and>
   (contractEventsDB_L1ContractEventByTxLogIndex db txHash logIndex = Inr (Some e1')
      \<longrightarrow> RawLog_reconciled (L1ContractEvent_ContractEvent e1')) \<and>
   (contractEventsDB_L1ContractEventsWithFilter db f lo hi = Inr es1
      \<longrightarrow> (\<forall>e\<in>set es1. RawLog_reconciled (L1ContractEvent_ContractEvent e))) \<and>
   (contractEventsDB_L2ContractEvent db guid = Inr (Some e2)
      \<longrightarrow> RawLog_reconciled (L2ContractEvent_ContractEvent e2)) \<and>
   (contractEventsDB_L2ContractEventByTxLogIndex db txHash logIndex = Inr (Some e2')
      \<longrightarrow> RawLog_reconciled (L2ContractEvent_ContractEvent e2')) \<and>
   (contractEventsDB_L2ContractEventsWithFilter db f lo hi = Inr es2
      \<longrightarrow> (\<forall>e\<in>set es2. RawLog_reconciled (L2ContractEvent_ContractEvent e))) \<and>
   (contractEventsDB_ContractEventsWithFilter db f chain lo hi = Inr es
      \<longrightarrow> (\<forall>e\<in>set es. RawLog_reconciled e))"
proof (intro conjI impI ballI)
  assume "contractEventsDB_L1ContractEvent db guid = Inr (Some e1)"
  then show "RawLog_reconciled (L1ContractEvent_ContractEvent e1)"
    unfolding contractEventsDB_L1ContractEvent_def by (rule Take_L1_reconciled)
next
  assume "contractEventsDB_L1ContractEventByTxLogIndex db txHash logIndex = Inr (Some e1')"
  then show "RawLog_reconciled (L1ContractEvent_ContractEvent e1')"
    unfolding contractEventsDB_L1ContractEventByTxLogIndex_def by (rule Take_L1_reconciled)
next
  assume "contractEventsDB_L2ContractEvent db guid = Inr (Some e2)"
  then show "RawLog_reconciled (L2ContractEvent_ContractEvent e2)"
    unfolding contractEventsDB_L2ContractEvent_def by (rule Take_L2_reconciled)
next
  assume "contractEventsDB_L2ContractEventByTxLogIndex db txHash logIndex = Inr (Some e2')"
  then show "RawLog_reconciled (L2ContractEvent_ContractEvent e2')"
    unfolding contractEventsDB_L2ContractEventByTxLogIndex_def by (rule Take_L2_reconciled)
next
  fix e
  assume "contractEventsDB_L1ContractEventsWithFilter db f lo hi = Inr es1" "e \<in> set es1"
  then show "RawLog_reconciled (L1ContractEvent_ContractEvent e)"
    by (rule L1_WithFilter_reconciled)
next
  fix e
  assume "contractEventsDB_L2ContractEventsWithFilter db f lo hi = Inr es2" "e \<in> set es2"
  then show "RawLog_reconciled (L2ContractEvent_ContractEvent e)"
    by (rule L2_WithFilter_reconciled)
next
  fix e
  assume a: "contractEventsDB_ContractEventsWithFilter db f chain lo hi = Inr es" "e \<in> set es"
  show "RawLog_reconciled e"
  proof (cases "chain = ''l1''")
    case True
    with a obtain l1Events where
      "contractEventsDB_L1ContractEventsWithFilter db f lo hi = Inr l1Events"
      "es = map L1ContractEvent_ContractEvent l1Events"
      by (auto simp: contractEventsDB_ContractEventsWithFilter_def split: sum.splits)
    with a(2) show ?thesis by (auto dest: L1_WithFilter_reconciled)
  next
    case False
    with a obtain l2Events where
      "contractEventsDB_L2ContractEventsWithFilter db f lo hi = Inr l2Events"
      "es = map L2ContractEvent_ContractEvent l2Events"
      by (auto simp: contractEventsDB_ContractEventsWithFilter_def split: sum.splits if_splits)
    with a(2) show ?thesis by (auto dest: L2_WithFilter_reconciled)
  qed
qed

theorem read_reconciles_raw_log_witness:
  "\<not> RawLog_reconciled event_A \<and> \<not> RawLog_reconciled event_C \<and>
   contractEventsDB_L1ContractEvent example_db 1 = Inr (Some (L1ContractEvent event_A_read)) \<and>
   contractEventsDB_L2ContractEventByTxLogIndex example_db 0x73 2
     = Inr (Some (L2ContractEvent event_C_read)) \<and>
   RawLog_reconciled event_A_read \<and> RawLog_reconciled event_B_read \<and>
   RawLog_reconciled event_C_read"
proof -
  have stale: "\<not> RawLog_reconciled event_A \<and> \<not> RawLog_reconciled event_C"
    by (simp add: RawLog_reconciled_def event_A_def event_C_def blank_log_def)
  from example_reads
    read_reconciles_raw_log[where db = example_db and guid = 1
      and ?e1.0 = "L1ContractEvent event_A_read"
      and txHash = "0x71" and logIndex = 1 and e1' = "L1ContractEvent event_A_read"
      and f = ContractEvent_zero and lo = None and hi = "Some 101"
      and ?es1.0 = "[L1ContractEvent event_A_read, L1ContractEvent event_B_read]"
      and ?e2.0 = "L2ContractEvent event_C_read" and e2' = "L2ContractEvent event_C_read"
      and ?es2.0 = "[L2ContractEvent event_C_read]"
      and chain = "''l2''" and es = "[event_C_read]"]
  have l1: "RawLog_reconciled event_A_read \<and> RawLog_reconciled event_B_read"
    by simp
  from example_reads
    read_reconciles_raw_log[where db = example_db and guid = 3
      and ?e1.0 = "L1ContractEvent event_A_read"
      and txHash = "0x73" and logIndex = 2 and e1' = "L1ContractEvent event_A_read"
      and f = ContractEvent_zero and lo = None and hi = "Some 500"
      and ?es1.0 = "[L1ContractEvent event_A_read, L1ContractEvent event_B_read]"
      and ?e2.0 = "L2ContractEvent event_C_read" and e2' = "L2ContractEvent event_C_read"
      and ?es2.0 = "[L2ContractEvent event_C_read]"
      and chain = "''l2''" and es = "[event_C_read]"]
  have l2: "RawLog_reconciled event_C_read"
    by simp
  from stale l1 l2 example_reads show ?thesis by simp
qed

subsection \<open>Events without a log\<close>

lemma built_from_log_iff:
  "built_from_log c \<longleftrightarrow> (\<exists>g l ts. ContractEventFromLog g (Some l) ts = Inr c)"
proof
  assume "built_from_log c"
  then show "\<exists>g l ts. ContractEventFromLog g (Some l) ts = Inr c"
    by (auto simp: built_from_log_def split: option.splits)
next
  assume "\<exists>g l ts. ContractEventFromLog g (Some l) ts = Inr c"
  then obtain g l ts where "ContractEventFromLog g (Some l) ts = Inr c" by blast
  then show "built_from_log c"
    by (auto simp: built_from_log_def ContractEventFromLog_def Let_def)
qed

lemma built_from_log_RLPLog: "built_from_log c \<Longrightarrow> RLPLog c \<noteq> None"
  by (auto simp: built_from_log_def split: option.splits)

lemma Take_L1_no_panic:
  assumes "set rows \<subseteq> set tbl"
    and "\<forall>e\<in>set tbl. RLPLog (L1ContractEvent_ContractEvent e) \<noteq> None"
  shows "(case gorm_Take L1ContractEvent_AfterFind rows of
            Inl err \<Rightarrow> if err = ErrRecordNotFound then Inr None else Inl err
          | Inr r \<Rightarrow> Inr (Some r)) \<noteq> Inl PanicNilPointerDereference"
proof (cases rows)
  case Nil
  then show ?thesis by (simp add: gorm_Take_def)
next
  case (Cons r rs)
  with assms have "RLPLog (L1ContractEvent_ContractEvent r) \<noteq> None" by auto
  then have "\<And>err. L1ContractEvent_AfterFind r \<noteq> Inl err" by (simp add: L1_AfterFind_Inl)
  with Cons show ?thesis by (simp add: gorm_Take_def split: sum.splits)
qed

lemma Take_L2_no_panic:
  assumes "set rows \<subseteq> set tbl"
    and "\<forall>e\<in>set tbl. RLPLog (L2ContractEvent_ContractEvent e) \<noteq> None"
  shows "(case gorm_Take L2ContractEvent_AfterFind rows of
            Inl err \<Rightarrow> if err = ErrRecordNotFound then Inr None else Inl err
          | Inr r \<Rightarrow> Inr (Some r)) \<noteq> Inl PanicNilPointerDereference"
proof (cases rows)
  case Nil
  then show ?thesis by (simp add: gorm_Take_def)
next
  case (Cons r rs)
  with assms have "RLPLog (L2ContractEvent_ContractEvent r) \<noteq> None" by auto
  then have "\<And>err. L2ContractEvent_AfterFind r \<noteq> Inl err" by (simp add: L2_AfterFind_Inl)
  with Cons show ?thesis by (simp add: gorm_Take_def split: sum.splits)
qed

lemma L1_WithFilter_total:
  assumes "\<forall>e\<in>set (l1_contract_events db). RLPLog (L1ContractEvent_ContractEvent e) \<noteq> None"
  shows "\<exists>es. contractEventsDB_L1ContractEventsWithFilter db f lo hi = Inr es"
proof -
  from L1_WithFilter_rows[of db f lo hi] obtain rows where
    sub: "set rows \<subseteq> set (l1_contract_events db)" and
    eq: "contractEventsDB_L1ContractEventsWithFilter db f lo hi =
       (case call_AfterFind L1ContractEvent_AfterFind rows of
          Inl err \<Rightarrow> if err = ErrRecordNotFound then Inr [] else Inl err
        | Inr events \<Rightarrow> Inr events)"
    by blast
  have "\<forall>r\<in>set rows. \<exists>r'. L1ContractEvent_AfterFind r = Inr r'"
  proof
    fix r assume "r \<in> set rows"
    with sub assms have "RLPLog (L1ContractEvent_ContractEvent r) \<noteq> None" by auto
    then show "\<exists>r'. L1ContractEvent_AfterFind r = Inr r'"
      by (cases "L1ContractEvent_AfterFind r") (simp_all add: L1_AfterFind_Inl)
  qed
  then obtain rs where "call_AfterFind L1ContractEvent_AfterFind rows = Inr rs"
    using call_AfterFind_total by blast
  with eq show ?thesis by simp
qed

lemma L2_WithFilter_total:
  assumes "\<forall>e\<in>set (l2_contract_events db). RLPLog (L2ContractEvent_ContractEvent e) \<noteq> None"
  shows "\<exists>es. contractEventsDB_L2ContractEventsWithFilter db f lo hi = Inr es"
proof -
  from L2_WithFilter_rows[of db f lo hi] obtain rows where
    sub: "set rows \<subseteq> set (l2_contract_events db)" and
    eq: "contractEventsDB_L2ContractEventsWithFilter db f lo hi =
       (case call_AfterFind L2ContractEvent_AfterFind rows of
          Inl err \<Rightarrow> if err = ErrRecordNotFound then Inr [] else Inl err
        | Inr events \<Rightarrow> Inr events)"
    by blast
  have "\<forall>r\<in>set rows. \<exists>r'. L2ContractEvent_AfterFind r = Inr r'"
  proof
    fix r assume "r \<in> set rows"
    with sub assms have "RLPLog (L2ContractEvent_ContractEvent r) \<noteq> None" by auto
    then show "\<exists>r'. L2ContractEvent_AfterFind r = Inr r'"
      by (cases "L2ContractEvent_AfterFind r") (simp_all add: L2_AfterFind_Inl)
  qed
  then obtain rs where "call_AfterFind L2ContractEvent_AfterFind rows = Inr rs"
    using call_AfterFind_total by blast
  with eq show ?thesis by simp
qed

text \<open>
  Claim C9. \<open>AfterFind\<close> assigns through the \<open>RLPLog\<close> pointer without a check:
  it panics exactly when the pointer is nil. \<open>ContractEventFromLog\<close> on a log that
  is not nil always sets \<open>RLPLog\<close>; when every stored event of both chains was built
  by it, no read operation ends in that panic.
\<close>

theorem nil_RLPLog_unreachable:
  "(AfterFind c = Inl PanicNilPointerDereference \<longleftrightarrow> RLPLog c = None) \<and>
   (\<exists>c'. ContractEventFromLog g (Some l) ts = Inr c' \<and> RLPLog c' = Some l) \<and>
   ((\<forall>e\<in>set (l1_contract_events db). built_from_log (L1ContractEvent_ContractEvent e)) \<and>
    (\<forall>e\<in>set (l2_contract_events db). built_from_log (L2ContractEvent_ContractEvent e))
    \<longrightarrow> contractEventsDB_L1ContractEvent db guid \<noteq> Inl PanicNilPointerDereference \<and>
        contractEventsDB_L1ContractEventByTxLogIndex db txHash logIndex
          \<noteq> Inl PanicNilPointerDereference \<and>
        contractEventsDB_L1ContractEventsWithFilter db f lo hi \<noteq> Inl PanicNilPointerDereference \<and>
        contractEventsDB_L2ContractEvent db guid \<noteq> Inl PanicNilPointerDereference \<and>
        contractEventsDB_L2ContractEventByTxLogIndex db txHash logIndex
          \<noteq> Inl PanicNilPointerDereference \<and>
        contractEventsDB_L2ContractEventsWithFilter db f lo hi \<noteq> Inl PanicNilPointerDereference \<and>
        contractEventsDB_ContractEventsWithFilter db f chain lo hi
          \<noteq> Inl PanicNilPointerDereference)"
proof (intro conjI impI)
  show "AfterFind c = Inl PanicNilPointerDereference \<longleftrightarrow> RLPLog c = None"
    by (simp add: AfterFind_Inl)
  show "\<exists>c'. ContractEventFromLog g (Some l) ts = Inr c' \<and> RLPLog c' = Some l"
    by (simp add: ContractEventFromLog_def Let_def)
next
  assume a: "(\<forall>e\<in>set (l1_contract_events db). built_from_log (L1ContractEvent_ContractEvent e)) \<and>
    (\<forall>e\<in>set (l2_contract_events db). built_from_log (L2ContractEvent_ContractEvent e))"
  then have n1: "\<forall>e\<in>set (l1_contract_events db). RLPLog (L1ContractEvent_ContractEvent e) \<noteq> None"
    and n2: "\<forall>e\<in>set (l2_contract_events db). RLPLog (L2ContractEvent_ContractEvent e) \<noteq> None"
    by (auto dest: built_from_log_RLPLog)
  show "contractEventsDB_L1ContractEvent db guid \<noteq> Inl PanicNilPointerDereference"
    unfolding contractEventsDB_L1ContractEvent_def
    by (rule Take_L1_no_panic[OF set_gorm_Where n1])
  show "contractEventsDB_L1ContractEventByTxLogIndex db txHash logIndex
          \<noteq> Inl PanicNilPointerDereference"
    unfolding contractEventsDB_L1ContractEventByTxLogIndex_def
    by (rule Take_L1_no_panic[OF set_gorm_Where n1])
  show "contractEventsDB_L2ContractEvent db guid \<noteq> Inl PanicNilPointerDereference"
    unfolding contractEventsDB_L2ContractEvent_def
    by (rule Take_L2_no_panic[OF set_gorm_Where n2])
  show "contractEventsDB_L2ContractEventByTxLogIndex db txHash logIndex
          \<noteq> Inl PanicNilPointerDereference"
    unfolding contractEventsDB_L2ContractEventByTxLogIndex_def
    by (rule Take_L2_no_panic[OF set_gorm_Where n2])
  show w1: "contractEventsDB_L1ContractEventsWithFilter db f lo hi \<noteq> Inl PanicNilPointerDereference"
    using L1_WithFilter_total[OF n1, of f lo hi] by auto
  show w2: "contractEventsDB_L2ContractEventsWithFilter db f lo hi \<noteq> Inl PanicNilPointerDereference"
    using L2_WithFilter_total[OF n2, of f lo hi] by auto
  show "contractEventsDB_ContractEventsWithFilter db f chain lo hi
          \<noteq> Inl PanicNilPointerDereference"
    using w1 w2
    by (auto simp: contractEventsDB_ContractEventsWithFilter_def split: sum.splits)
qed

theorem nil_RLPLog_unreachable_witness:
  "built_from_log (event_A\<lparr>RLPLog := Some log_A\<rparr>) \<and>
   built_from_log (event_C\<lparr>EventSignature := 0, RLPLog := Some log_C\<rparr>) \<and>
   contractEventsDB_L1ContractEvent ingested_db 1 \<noteq> Inl PanicNilPointerDereference \<and>
   contractEventsDB_L2ContractEventsWithFilter ingested_db ContractEvent_zero None (Some 500)
     \<noteq> Inl PanicNilPointerDereference"
proof -
  have b: "built_from_log (event_A\<lparr>RLPLog := Some log_A\<rparr>) \<and>
           built_from_log (event_C\<lparr>EventSignature := 0, RLPLog := Some log_C\<rparr>)"
    by (simp add: built_from_log_def ContractEventFromLog_def example_defs)
  then have "(\<forall>e\<in>set (l1_contract_events ingested_db).
                 built_from_log (L1ContractEvent_ContractEvent e)) \<and>
             (\<forall>e\<in>set (l2_contract_events ingested_db).
                 built_from_log (L2ContractEvent_ContractEvent e))"
    by (simp add: ingested_db_def)
  with b nil_RLPLog_unreachable[where db = ingested_db and guid = 1 and f = ContractEvent_zero
      and lo = None and hi = "Some 500"]
  show ?thesis by blast
qed

subsection \<open>The dual-chain entry point\<close>

lemma nil_log_reads:
  "contractEventsDB_L1ContractEventsWithFilter nil_log_db ContractEvent_zero None (Some 500)
     = Inl PanicNilPointerDereference"
  "contractEventsDB_L2ContractEventsWithFilter nil_log_db ContractEvent_zero None (Some 500)
     = Inl PanicNilPointerDereference"
  by (simp_all add: eval_defs example_defs)

text \<open>
  Claim C6. \<open>ContractEventsWithFilter\<close> with the selector \<open>''l1''\<close> runs the L1
  range query and with \<open>''l2''\<close> the L2 range query; it returns the events of that
  query unwrapped one by one, in the same order and number, and hands on its error.
  Every other selector gives the error \<^verbatim>\<open>expected 'l1' or 'l2' for chain type\<close>,
  which is not an error of the storage, and no events.
\<close>

theorem dual_chain_dispatch:
  "(contractEventsDB_L1ContractEventsWithFilter db f lo hi = Inr es1
      \<longrightarrow> contractEventsDB_ContractEventsWithFilter db f ''l1'' lo hi
            = Inr (map L1ContractEvent_ContractEvent es1)) \<and>
   (contractEventsDB_L1ContractEventsWithFilter db f lo hi = Inl err1
      \<longrightarrow> contractEventsDB_ContractEventsWithFilter db f ''l1'' lo hi = Inl err1) \<and>
   (contractEventsDB_L2ContractEventsWithFilter db f lo hi = Inr es2
      \<longrightarrow> contractEventsDB_ContractEventsWithFilter db f ''l2'' lo hi
            = Inr (map L2ContractEvent_ContractEvent es2)) \<and>
   (contractEventsDB_L2ContractEventsWithFilter db f lo hi = Inl err2
      \<longrightarrow> contractEventsDB_ContractEventsWithFilter db f ''l2'' lo hi = Inl err2) \<and>
   (chain \<noteq> ''l1'' \<and> chain \<noteq> ''l2''
      \<longrightarrow> contractEventsDB_ContractEventsWithFilter db f chain lo hi
            = Inl (ErrorString (''expected '' @ [CHR 0x27] @ ''l1'' @ [CHR 0x27] @ '' or ''
                                @ [CHR 0x27] @ ''l2'' @ [CHR 0x27] @ '' for chain type'')))"
  by (simp add: contractEventsDB_ContractEventsWithFilter_def)

theorem dual_chain_dispatch_witness:
  "contractEventsDB_ContractEventsWithFilter example_db ContractEvent_zero ''l1'' None (Some 101)
     = Inr [event_A_read, event_B_read] \<and>
   contractEventsDB_ContractEventsWithFilter example_db ContractEvent_zero ''l2'' None (Some 500)
     = Inr [event_C_read] \<and>
   contractEventsDB_ContractEventsWithFilter nil_log_db ContractEvent_zero ''l1'' None (Some 500)
     = Inl PanicNilPointerDereference \<and>
   contractEventsDB_ContractEventsWithFilter nil_log_db ContractEvent_zero ''l2'' None (Some 500)
     = Inl PanicNilPointerDereference \<and>
   contractEventsDB_ContractEventsWithFilter example_db ContractEvent_zero ''L2'' None (Some 500)
     = Inl (ErrorString (''expected '' @ [CHR 0x27] @ ''l1'' @ [CHR 0x27] @ '' or ''
                         @ [CHR 0x27] @ ''l2'' @ [CHR 0x27] @ '' for chain type''))"
proof -
  have c: "''L2'' \<noteq> ''l1'' \<and> ''L2'' \<noteq> ''l2''" by simp
  from example_reads(3)
    dual_chain_dispatch[where db = example_db and f = ContractEvent_zero and lo = None
      and hi = "Some 101" and ?es1.0 = "[L1ContractEvent event_A_read, L1ContractEvent event_B_read]"]
  have l1: "contractEventsDB_ContractEventsWithFilter example_db ContractEvent_zero ''l1'' None
              (Some 101) = Inr [event_A_read, event_B_read]"
    by simp
  from example_reads(6) c
    dual_chain_dispatch[where db = example_db and f = ContractEvent_zero and lo = None
      and hi = "Some 500" and ?es2.0 = "[L2ContractEvent event_C_read]" and chain = "''L2''"]
  have l2: "contractEventsDB_ContractEventsWithFilter example_db ContractEvent_zero ''l2'' None
              (Some 500) = Inr [event_C_read] \<and>
            contractEventsDB_ContractEventsWithFilter example_db ContractEvent_zero ''L2'' None
              (Some 500)
            = Inl (ErrorString (''expected '' @ [CHR 0x27] @ ''l1'' @ [CHR 0x27] @ '' or ''
                         @ [CHR 0x27] @ ''l2'' @ [CHR 0x27] @ '' for chain type''))"
    by simp
  from nil_log_reads
    dual_chain_dispatch[where db = nil_log_db and f = ContractEvent_zero and lo = None
      and hi = "Some 500" and ?err1.0 = PanicNilPointerDereference
      and ?err2.0 = PanicNilPointerDereference]
  have e: "contractEventsDB_ContractEventsWithFilter nil_log_db ContractEvent_zero ''l1'' None
             (Some 500) = Inl PanicNilPointerDereference \<and>
           contractEventsDB_ContractEventsWithFilter nil_log_db ContractEvent_zero ''l2'' None
             (Some 500) = Inl PanicNilPointerDereference"
    by simp
  from l1 l2 e show ?thesis by simp
qed

subsection \<open>The bounds of a range query\<close>






subsection \<open>Events in a range of heights\<close>










lemma list_all_conds_comp:
  "list_all (\<lambda>c. c r) (map (\<lambda>c. c \<circ> g) conds) = list_all (\<lambda>c. c (g r)) conds"
  by (induction conds) auto







lemma gorm_Create_keeps_distinct:
  "distinct (map pk tbl) \<Longrightarrow> gorm_Create pk tbl vals = Inr tbl' \<Longrightarrow> distinct (map pk tbl')"
proof -
  assume dt: "distinct (map pk tbl)" and c: "gorm_Create pk tbl vals = Inr tbl'"
  from c have ok: "distinct (map pk vals) \<and> pk ` set vals \<inter> pk ` set tbl = {}"
    by (simp add: gorm_Create_def insert_rows_eq split: if_splits)
  from c have "tbl' = tbl @ vals" by (rule gorm_Create_Inr)
  moreover from ok have "pk ` set tbl \<inter> pk ` set vals = {}" by blast
  ultimately show ?thesis using dt ok by simp
qed

lemma Store_keeps_hashes_distinct:
  "distinct (map (\<lambda>h. Hash (L1BlockHeader_BlockHeader h)) (l1_block_headers db)) \<Longrightarrow>
     distinct (map (\<lambda>h. Hash (L1BlockHeader_BlockHeader h))
                 (l1_block_headers (snd (blocksDB_StoreL1BlockHeaders db headers))))"
  "distinct (map (\<lambda>h. Hash (L2BlockHeader_BlockHeader h)) (l2_block_headers db)) \<Longrightarrow>
     distinct (map (\<lambda>h. Hash (L2BlockHeader_BlockHeader h))
                 (l2_block_headers (snd (blocksDB_StoreL2BlockHeaders db headers'))))"
  by (auto simp: blocksDB_StoreL1BlockHeaders_def blocksDB_StoreL2BlockHeaders_def
      split: sum.splits dest: gorm_Create_keeps_distinct)

lemma L1_hook_not_found: "L1ContractEvent_AfterFind r = Inl err \<Longrightarrow> err \<noteq> ErrRecordNotFound"
  by (simp add: L1_AfterFind_Inl)

lemma L2_hook_not_found: "L2ContractEvent_AfterFind r = Inl err \<Longrightarrow> err \<noteq> ErrRecordNotFound"
  by (simp add: L2_AfterFind_Inl)









subsection \<open>The event at a transaction hash and log index\<close>

lemma Where_TxLogIndex_nonzero:
  "txHash \<noteq> 0 \<Longrightarrow> logIndex \<noteq> 0 \<Longrightarrow>
     gorm_Where
       (map (\<lambda>c. c \<circ> sel)
          (ContractEvent_conds (ContractEvent_zero\<lparr>TransactionHash := txHash, LogIndex := logIndex\<rparr>)))
       rows
     = filter (\<lambda>e. TransactionHash (sel e) = txHash \<and> LogIndex (sel e) = logIndex) rows"
  by (simp add: gorm_Where_def ContractEvent_conds_def ContractEvent_zero_def)

lemma Where_TxLogIndex_zero_index:
  "txHash \<noteq> 0 \<Longrightarrow>
     gorm_Where
       (map (\<lambda>c. c \<circ> sel)
          (ContractEvent_conds (ContractEvent_zero\<lparr>TransactionHash := txHash, LogIndex := 0\<rparr>)))
       rows
     = filter (\<lambda>e. TransactionHash (sel e) = txHash) rows"
  by (simp add: gorm_Where_def ContractEvent_conds_def ContractEvent_zero_def)

lemma event_by_location_nonzero:
  assumes "txHash \<noteq> 0" and "logIndex \<noteq> 0"
  shows "contractEventsDB_L1ContractEventByTxLogIndex db txHash logIndex =
           (case filter (\<lambda>e. TransactionHash (L1ContractEvent_ContractEvent e) = txHash \<and>
                              LogIndex (L1ContractEvent_ContractEvent e) = logIndex)
                   (l1_contract_events db) of
              [] \<Rightarrow> Inr None
            | e # _ \<Rightarrow> (case L1ContractEvent_AfterFind e of
                          Inl err \<Rightarrow> Inl err
                        | Inr e' \<Rightarrow> Inr (Some e')))"
    and "contractEventsDB_L2ContractEventByTxLogIndex db txHash logIndex =
           (case filter (\<lambda>e. TransactionHash (L2ContractEvent_ContractEvent e) = txHash \<and>
                              LogIndex (L2ContractEvent_ContractEvent e) = logIndex)
                   (l2_contract_events db) of
              [] \<Rightarrow> Inr None
            | e # _ \<Rightarrow> (case L2ContractEvent_AfterFind e of
                          Inl err \<Rightarrow> Inl err
                        | Inr e' \<Rightarrow> Inr (Some e')))"
  using assms
  by (auto simp: contractEventsDB_L1ContractEventByTxLogIndex_def
      contractEventsDB_L2ContractEventByTxLogIndex_def Where_TxLogIndex_nonzero gorm_Take_def
      split: list.splits sum.splits dest: L1_hook_not_found L2_hook_not_found)

text \<open>
  Claim C4, at the log index 0. The struct condition drops a \<open>LogIndex\<close> that is 0
  (and a \<open>TransactionHash\<close> that is zero), so the lookup at log index 0 asks for the
  transaction hash alone: no stored event has this transaction hash and the log index 0,
  and the lookup returns the event of that transaction at log index 1 (on L2: at log
  index 2) instead of absent.
\<close>

theorem event_by_location_zero_index:
  "filter (\<lambda>e. TransactionHash (L1ContractEvent_ContractEvent e) = 0x71 \<and>
               LogIndex (L1ContractEvent_ContractEvent e) = 0)
     (l1_contract_events example_db) = [] \<and>
   contractEventsDB_L1ContractEventByTxLogIndex example_db 0x71 0
     = Inr (Some (L1ContractEvent event_A_read)) \<and>
   LogIndex event_A_read = 1 \<and>
   filter (\<lambda>e. TransactionHash (L2ContractEvent_ContractEvent e) = 0x73 \<and>
               LogIndex (L2ContractEvent_ContractEvent e) = 0)
     (l2_contract_events example_db) = [] \<and>
   contractEventsDB_L2ContractEventByTxLogIndex example_db 0x73 0
     = Inr (Some (L2ContractEvent event_C_read)) \<and>
   LogIndex event_C_read = 2"
  by (simp add: eval_defs example_defs)

end
